theory Spec2Isabelle
  imports Complex_Main "HOL-Library.Multiset"
begin

section \<open>Values and the record table\<close>

text \<open>
  A control of the page hands its callback a JSON value: nothing selected is Python's
  \<^verbatim>\<open>None\<close>, a dropdown or radio item hands over a string, a number or a boolean.
  \<open>truthy\<close> is Python's truth test, which \<^verbatim>\<open>if selected_gender\<close> applies.
\<close>

datatype pyval = PNone | PStr string | PInt int | PBool bool

fun truthy :: "pyval \<Rightarrow> bool" where
  "truthy PNone = False"
| "truthy (PStr s) = (s \<noteq> [])"
| "truthy (PInt i) = (i \<noteq> 0)"
| "truthy (PBool b) = b"

text \<open>
  A parsed admission date (\<^verbatim>\<open>pd.to_datetime\<close>): year, month (1 to 12), day.
\<close>

datatype timestamp = Timestamp (ts_year: int) (ts_month: int) (ts_day: int)

text \<open>
  One line of \<^verbatim>\<open>assets/healthcare.csv\<close>, after \<^verbatim>\<open>pd.to_numeric(..., errors='coerce')\<close>
  and \<^verbatim>\<open>pd.to_datetime\<close>: a billing amount that does not parse is the missing-value
  marker NaN, here \<open>None\<close>. Amounts are exact reals. Reading and parsing the file is the
  work of pandas and is taken as done.
\<close>

record csv_row =
  Gender :: string
  Age :: int
  Medical_Condition :: string
  Insurance_Provider :: string
  Billing_Amount :: "real option"
  Date_of_Admission :: timestamp

text \<open>The loaded table has the derived column \<^verbatim>\<open>YearMonth\<close> as well.\<close>

record row = csv_row +
  YearMonth :: int

text \<open>
  \<^verbatim>\<open>dt.to_period('M')\<close>: a monthly period is its ordinal, the number of months since
  January 1970. \<open>period_str\<close> is \<^verbatim>\<open>astype(str)\<close> on such a period: \<^verbatim>\<open>2021-03\<close>.
\<close>

definition to_period_M :: "timestamp \<Rightarrow> int" where
  "to_period_M t = (ts_year t - 1970) * 12 + (ts_month t - 1)"

definition digit :: "int \<Rightarrow> char" where
  "digit d = ''0123456789'' ! nat (d mod 10)"

definition period_str :: "int \<Rightarrow> string" where
  "period_str p =
     (let yr = 1970 + p div 12; mo = p mod 12 + 1
      in [digit (yr div 1000), digit (yr div 100), digit (yr div 10), digit yr,
          CHR ''-'', digit (mo div 10), digit mo])"

definition load_data :: "csv_row list \<Rightarrow> row list" where
  "load_data csv =
     map (\<lambda>r. \<lparr>Gender = Gender r, Age = Age r, Medical_Condition = Medical_Condition r,
               Insurance_Provider = Insurance_Provider r, Billing_Amount = Billing_Amount r,
               Date_of_Admission = Date_of_Admission r,
               YearMonth = to_period_M (Date_of_Admission r)\<rparr>) csv"

section \<open>The operations of pandas the callbacks use\<close>

text \<open>
  \<^verbatim>\<open>data["Gender"] == v\<close>: a string cell equals a string of the same characters and no
  other value. \<^verbatim>\<open>series <= t\<close> on a numeric column: NaN compares false.
  \<^verbatim>\<open>frame[mask]\<close> keeps the rows whose mask entry is true, in their order.
\<close>

definition series_eq :: "string list \<Rightarrow> pyval \<Rightarrow> bool list" where
  "series_eq col v = map (\<lambda>c. PStr c = v) col"

definition series_le :: "real option list \<Rightarrow> real \<Rightarrow> bool list" where
  "series_le col t = map (\<lambda>c. case c of None \<Rightarrow> False | Some b \<Rightarrow> b \<le> t) col"

definition getitem_mask :: "'r list \<Rightarrow> bool list \<Rightarrow> 'r list" where
  "getitem_mask frame keep = map fst (filter snd (zip frame keep))"

text \<open>\<^verbatim>\<open>unique()\<close>: the distinct values in order of first appearance.\<close>

fun unique :: "'a list \<Rightarrow> 'a list" where
  "unique [] = []"
| "unique (v # vs) = v # unique (filter (\<lambda>w. w \<noteq> v) vs)"

text \<open>
  \<^verbatim>\<open>groupby(key).size().reset_index(name="Count")\<close>: one row per distinct key with the
  number of rows that have it, the keys sorted ascending (\<^verbatim>\<open>sort=True\<close> is the default).
\<close>

definition groupby_size :: "('r \<Rightarrow> 'k::linorder) \<Rightarrow> 'r list \<Rightarrow> ('k \<times> nat) list" where
  "groupby_size key frame =
     map (\<lambda>k. (k, length (filter (\<lambda>r. key r = k) frame))) (sort (unique (map key frame)))"

section \<open>Figures\<close>

text \<open>
  What a plotly express call returns: the traces with the data they carry, the title and
  the bar mode. Colours are left out. A histogram or pie trace carries the raw values of
  its rows; the renderer bins and counts them.
\<close>

datatype ('x, 'y) trace =
    Histogram (trace_name: string) (trace_x: "'x list") (trace_nbinsx: nat)
  | Bar (trace_name: string) (trace_x: "'x list") (trace_y: "'y list")
  | Scatter (trace_name: string) (trace_x: "'x list") (trace_y: "'y list")
  | Pie (trace_labels: "'x list")

record ('x, 'y) figure =
  fig_data :: "('x, 'y) trace list"
  fig_title :: string
  fig_barmode :: "string option"

text \<open>
  With a \<^verbatim>\<open>color\<close> column, plotly express makes one trace per distinct value of the
  column, in order of first appearance, from the rows that have it; with none, one trace
  from all rows. A frame with no rows gives a figure with no trace.
\<close>

definition groups :: "('r \<Rightarrow> string) \<Rightarrow> 'r list \<Rightarrow> (string \<times> 'r list) list" where
  "groups color frame =
     map (\<lambda>k. (k, filter (\<lambda>r. color r = k) frame)) (unique (map color frame))"

definition one_group :: "'r list \<Rightarrow> (string \<times> 'r list) list" where
  "one_group frame = (if frame = [] then [] else [([], frame)])"

definition px_histogram ::
  "(string \<times> 'r list) list \<Rightarrow> ('r \<Rightarrow> 'x) \<Rightarrow> nat \<Rightarrow> string \<Rightarrow> ('x, unit) figure" where
  "px_histogram gs xcol nbins title =
     \<lparr>fig_data = map (\<lambda>(k, rs). Histogram k (map xcol rs) nbins) gs,
      fig_title = title, fig_barmode = None\<rparr>"

definition px_pie :: "'r list \<Rightarrow> ('r \<Rightarrow> 'x) \<Rightarrow> string \<Rightarrow> ('x, unit) figure" where
  "px_pie frame names title =
     \<lparr>fig_data = map (\<lambda>(k, rs). Pie (map names rs)) (one_group frame),
      fig_title = title, fig_barmode = None\<rparr>"

definition px_bar ::
  "(string \<times> 'r list) list \<Rightarrow> ('r \<Rightarrow> 'x) \<Rightarrow> ('r \<Rightarrow> 'y) \<Rightarrow> string option \<Rightarrow> string
     \<Rightarrow> ('x, 'y) figure" where
  "px_bar gs xcol ycol barmode title =
     \<lparr>fig_data = map (\<lambda>(k, rs). Bar k (map xcol rs) (map ycol rs)) gs,
      fig_title = title, fig_barmode = barmode\<rparr>"

definition px_line ::
  "(string \<times> 'r list) list \<Rightarrow> ('r \<Rightarrow> 'x) \<Rightarrow> ('r \<Rightarrow> 'y) \<Rightarrow> string \<Rightarrow> ('x, 'y) figure" where
  "px_line gs xcol ycol title =
     \<lparr>fig_data = map (\<lambda>(k, rs). Scatter k (map xcol rs) (map ycol rs)) gs,
      fig_title = title, fig_barmode = None\<rparr>"

section \<open>The callbacks\<close>

text \<open>
  Each callback reads the module's table \<^verbatim>\<open>data\<close>; here it is the last argument.
  \<open>update_distribution\<close> returns the empty dictionary or a figure. In
  \<open>update_admission\<close> the variable \<^verbatim>\<open>trend_data_frame\<close> holds the counts per period
  first (\<open>admission_counts\<close>) and then, its periods turned into strings, the frame
  that is drawn.
\<close>

datatype 'f callback_result = EmptyDict | Fig 'f

definition update_distribution :: "pyval \<Rightarrow> row list \<Rightarrow> (int, unit) figure callback_result" where
  "update_distribution selected_gender table =
     (let filtered_data_frame =
            (if truthy selected_gender
             then getitem_mask table (series_eq (map Gender table) selected_gender)
             else table)
      in if filtered_data_frame = [] then EmptyDict
         else Fig (px_histogram (groups Gender filtered_data_frame) Age 10
                     ''Age Distribution by Gender''))"

definition update_medical_condition :: "pyval \<Rightarrow> row list \<Rightarrow> (string, unit) figure" where
  "update_medical_condition selected_gender table =
     (let filtered_data_frame =
            (if truthy selected_gender
             then getitem_mask table (series_eq (map Gender table) selected_gender)
             else table)
      in px_pie filtered_data_frame Medical_Condition ''Medical Condiiton Distribution'')"

definition update_insurance :: "pyval \<Rightarrow> row list \<Rightarrow> (string, real option) figure" where
  "update_insurance selected_gender table =
     (let filtered_data_frame =
            (if truthy selected_gender
             then getitem_mask table (series_eq (map Gender table) selected_gender)
             else table)
      in px_bar (groups Medical_Condition filtered_data_frame) Insurance_Provider
           Billing_Amount (Some ''group'') ''Insurance Provider Price Comparison'')"

definition billing_frame :: "pyval \<Rightarrow> real \<Rightarrow> row list \<Rightarrow> row list" where
  "billing_frame selected_gender slider_value table =
     (let filtered_data_frame =
            (if truthy selected_gender
             then getitem_mask table (series_eq (map Gender table) selected_gender)
             else table)
      in getitem_mask filtered_data_frame
           (series_le (map Billing_Amount filtered_data_frame) slider_value))"

definition update_billing :: "pyval \<Rightarrow> real \<Rightarrow> row list \<Rightarrow> (real option, unit) figure" where
  "update_billing selected_gender slider_value table =
     px_histogram (one_group (billing_frame selected_gender slider_value table))
       Billing_Amount 10 ''Billing Amount Distribution''"

definition admission_counts :: "pyval \<Rightarrow> row list \<Rightarrow> (int \<times> nat) list" where
  "admission_counts selected_condition table =
     (let filtered_data_frame =
            (if truthy selected_condition
             then getitem_mask table
                    (series_eq (map Medical_Condition table) selected_condition)
             else table)
      in groupby_size YearMonth filtered_data_frame)"

definition trend_data_frame :: "pyval \<Rightarrow> row list \<Rightarrow> (string \<times> nat) list" where
  "trend_data_frame selected_condition table =
     map (\<lambda>(p, n). (period_str p, n)) (admission_counts selected_condition table)"

definition update_admission :: "pyval \<Rightarrow> pyval \<Rightarrow> row list \<Rightarrow> (string, nat) figure" where
  "update_admission chart_type selected_condition table =
     (if chart_type = PStr ''line''
      then px_line (one_group (trend_data_frame selected_condition table)) fst snd
             ''Admission Trends over Time''
      else px_bar (one_group (trend_data_frame selected_condition table)) fst snd None
             ''Admission Trends over Time'')"

section \<open>What the renderer counts\<close>

text \<open>
  The bars of a bar figure: one per entry of a trace, with its position on the x axis,
  the name of its trace and its height.
\<close>

definition bars :: "('x, 'y) figure \<Rightarrow> (('x \<times> string) \<times> 'y) list" where
  "bars fig =
     concat (map (\<lambda>t. map (\<lambda>(v, h). ((v, trace_name t), h)) (zip (trace_x t) (trace_y t)))
               (fig_data fig))"

text \<open>A histogram counts every value of its traces that is not NaN.\<close>

fun dropna :: "'a option list \<Rightarrow> 'a list" where
  "dropna [] = []"
| "dropna (None # cs) = dropna cs"
| "dropna (Some b # cs) = b # dropna cs"

definition counted_rows :: "(real option, unit) figure \<Rightarrow> nat" where
  "counted_rows fig = sum_list (map (\<lambda>t. length (dropna (trace_x t))) (fig_data fig))"

text \<open>
  Modelled from the spec: the binning of the age histogram, which the renderer of the
  charting library does and src/ does not hold. The spec's words are "10 equal-width
  bins across the filtered subset's observed range": with \<open>lo\<close> and \<open>hi\<close> the least and
  the greatest age of all traces, bin \<open>i\<close> holds the ages from \<open>lo + i * (hi - lo) / 10\<close>
  up to, and not including, \<open>lo + (i + 1) * (hi - lo) / 10\<close>; the last bin holds
  \<open>hi\<close> too. \<open>age_bins\<close> gives the ten counts of every trace.
\<close>

definition bin_index :: "int \<Rightarrow> int \<Rightarrow> int \<Rightarrow> nat" where
  "bin_index lo hi a = (if hi \<le> lo then 0 else min 9 (nat ((a - lo) * 10 div (hi - lo))))"

definition bin_counts :: "int \<Rightarrow> int \<Rightarrow> int list \<Rightarrow> nat list" where
  "bin_counts lo hi ages = map (\<lambda>i. length (filter (\<lambda>a. bin_index lo hi a = i) ages)) [0..<10]"

definition age_bins :: "(int, unit) figure \<Rightarrow> (string \<times> nat list) list" where
  "age_bins fig =
     (case concat (map trace_x (fig_data fig)) of
        [] \<Rightarrow> []
      | a # rest \<Rightarrow>
          map (\<lambda>t. (trace_name t, bin_counts (fold min rest a) (fold max rest a) (trace_x t)))
            (fig_data fig))"

section \<open>The statistics computed at startup\<close>

text \<open>
  The reductions of pandas skip NaN (\<^verbatim>\<open>skipna=True\<close> is the default) and give NaN on a
  column with no value. The mean is the sum with NaN taken as zero over the number of
  values present; the median and the quantiles are read off the sorted values present,
  a quantile by linear interpolation between its two neighbours.
\<close>

definition nansum :: "real option list \<Rightarrow> real" where
  "nansum col = sum_list (map (\<lambda>c. case c of None \<Rightarrow> 0 | Some b \<Rightarrow> b) col)"

definition count_notna :: "real option list \<Rightarrow> nat" where
  "count_notna col = length (filter (\<lambda>c. c \<noteq> None) col)"

definition series_mean :: "real option list \<Rightarrow> real option" where
  "series_mean col =
     (if count_notna col = 0 then None else Some (nansum col / real (count_notna col)))"

definition series_min :: "real option list \<Rightarrow> real option" where
  "series_min col = (case dropna col of [] \<Rightarrow> None | b # bs \<Rightarrow> Some (fold min bs b))"

definition series_max :: "real option list \<Rightarrow> real option" where
  "series_max col = (case dropna col of [] \<Rightarrow> None | b # bs \<Rightarrow> Some (fold max bs b))"

definition series_quantile :: "real option list \<Rightarrow> real \<Rightarrow> real option" where
  "series_quantile col q =
     (let vs = sort (dropna col); n = length vs
      in if n = 0 then None
         else let pos = q * real (n - 1); lo = nat \<lfloor>pos\<rfloor>; hi = min (lo + 1) (n - 1)
              in Some (vs ! lo + (vs ! hi - vs ! lo) * (pos - real lo)))"

definition series_median :: "real option list \<Rightarrow> real option" where
  "series_median col =
     (let vs = sort (dropna col); n = length vs
      in if n = 0 then None
         else if odd n then Some (vs ! (n div 2))
         else Some ((vs ! (n div 2 - 1) + vs ! (n div 2)) / 2))"

definition num_records :: "row list \<Rightarrow> nat" where
  "num_records table = length table"

definition avg_billing :: "row list \<Rightarrow> real option" where
  "avg_billing table = series_mean (map Billing_Amount table)"

definition slider_min :: "row list \<Rightarrow> real option" where
  "slider_min table = series_min (map Billing_Amount table)"

definition slider_max :: "row list \<Rightarrow> real option" where
  "slider_max table = series_max (map Billing_Amount table)"

definition slider_value :: "row list \<Rightarrow> real option" where
  "slider_value table = series_median (map Billing_Amount table)"

text \<open>
  The marks of the slider: \<^verbatim>\<open>int(value)\<close> of the five quantiles, which truncates towards
  zero and raises \<^verbatim>\<open>ValueError\<close> on NaN. The dictionary keeps a key once, where it came
  first. The label of a mark is a function of its key alone and is left out.
\<close>

datatype py_error = ValueError

definition py_int :: "real option \<Rightarrow> py_error + int" where
  "py_int v = (case v of None \<Rightarrow> Inl ValueError
               | Some b \<Rightarrow> Inr (if 0 \<le> b then \<lfloor>b\<rfloor> else \<lceil>b\<rceil>))"

fun mark_keys :: "real option list \<Rightarrow> py_error + int list" where
  "mark_keys [] = Inr []"
| "mark_keys (v # vs) =
     (case py_int v of
        Inl e \<Rightarrow> Inl e
      | Inr k \<Rightarrow> (case mark_keys vs of
                   Inl e \<Rightarrow> Inl e
                 | Inr ks \<Rightarrow> Inr (k # filter (\<lambda>j. j \<noteq> k) ks)))"

definition slider_marks :: "row list \<Rightarrow> py_error + int list" where
  "slider_marks table =
     mark_keys (map (series_quantile (map Billing_Amount table)) [0, 0.25, 0.5, 0.75, 1])"

section \<open>The insurance comparison as the spec words it\<close>

text \<open>
  The spec's reading of the insurance comparison, to compare the callback with: one bar
  per pair of provider and condition among the rows, its height the mean billing amount
  of the rows of the pair.
\<close>

definition spec_insurance_means :: "row list \<Rightarrow> ((string \<times> string) \<times> real option) list" where
  "spec_insurance_means frame =
     map (\<lambda>k. (k, series_mean (map Billing_Amount
                     (filter (\<lambda>r. (Insurance_Provider r, Medical_Condition r) = k) frame))))
       (unique (map (\<lambda>r. (Insurance_Provider r, Medical_Condition r)) frame))"

text \<open>The gender filter all four callbacks apply, spelled as one function for the statements.\<close>

definition gender_subset :: "pyval \<Rightarrow> row list \<Rightarrow> row list" where
  "gender_subset selected_gender table =
     (if truthy selected_gender then filter (\<lambda>r. PStr (Gender r) = selected_gender) table
      else table)"

text \<open>The condition filter of the admission trend, likewise.\<close>

definition condition_subset :: "pyval \<Rightarrow> row list \<Rightarrow> row list" where
  "condition_subset selected_condition table =
     (if truthy selected_condition
      then filter (\<lambda>r. PStr (Medical_Condition r) = selected_condition) table
      else table)"

section \<open>A table to evaluate on\<close>

definition example_csv :: "csv_row list" where
  "example_csv =
     [\<lparr>Gender = ''Female'', Age = 34, Medical_Condition = ''Diabetes'',
       Insurance_Provider = ''Aetna'', Billing_Amount = Some 200,
       Date_of_Admission = Timestamp 2021 3 5\<rparr>,
      \<lparr>Gender = ''Male'', Age = 51, Medical_Condition = ''Diabetes'',
       Insurance_Provider = ''Aetna'', Billing_Amount = None,
       Date_of_Admission = Timestamp 2021 3 20\<rparr>,
      \<lparr>Gender = ''Female'', Age = 47, Medical_Condition = ''Asthma'',
       Insurance_Provider = ''Cigna'', Billing_Amount = Some 300,
       Date_of_Admission = Timestamp 2020 11 2\<rparr>,
      \<lparr>Gender = ''Female'', Age = 29, Medical_Condition = ''Diabetes'',
       Insurance_Provider = ''Aetna'', Billing_Amount = Some 100,
       Date_of_Admission = Timestamp 2021 1 15\<rparr>]"

definition example_table :: "row list" where
  "example_table = load_data example_csv"

section \<open>Facts about the operations\<close>

lemmas ex = example_table_def example_csv_def load_data_def to_period_M_def

lemma getitem_mask_map: "getitem_mask frame (map P frame) = filter P frame"
  by (induction frame) (simp_all add: getitem_mask_def)

lemma gender_mask: 
  "(if truthy g then getitem_mask table (series_eq (map Gender table) g) else table)
     = gender_subset g table"
proof -
  have "series_eq (map Gender table) g = map (\<lambda>r. PStr (Gender r) = g) table"
    by (simp add: series_eq_def)
  then show ?thesis
    by (simp add: gender_subset_def getitem_mask_map)
qed

lemma set_unique: "set (unique vs) = set vs"
  by (induction vs rule: unique.induct) auto

lemma distinct_unique: "distinct (unique vs)"
  by (induction vs rule: unique.induct) (auto simp: set_unique)

lemma mset_by_keys:
  "distinct ks \<Longrightarrow> f ` set rs \<subseteq> set ks \<Longrightarrow>
     mset (concat (map (\<lambda>k. filter (\<lambda>r. f r = k) rs) ks)) = mset rs"
proof (induction ks arbitrary: rs)
  case Nil
  then show ?case by simp
next
  case (Cons k ks)
  let ?rest = "filter (\<lambda>r. f r \<noteq> k) rs"
  have same: "map (\<lambda>j. filter (\<lambda>r. f r = j) rs) ks = map (\<lambda>j. filter (\<lambda>r. f r = j) ?rest) ks"
  proof (rule map_cong[OF refl])
    fix j assume "j \<in> set ks"
    with Cons.prems(1) have "j \<noteq> k" by auto
    then have "\<And>r. (f r = j) = (f r \<noteq> k \<and> f r = j)" by auto
    then show "filter (\<lambda>r. f r = j) rs = filter (\<lambda>r. f r = j) ?rest"
      by simp
  qed
  have "f ` set ?rest \<subseteq> set ks"
    using Cons.prems(2) by auto
  with Cons.IH[of ?rest] Cons.prems(1)
  have ih: "mset (concat (map (\<lambda>j. filter (\<lambda>r. f r = j) ?rest) ks)) = mset ?rest"
    by simp
  have "mset (concat (map (\<lambda>j. filter (\<lambda>r. f r = j) rs) (k # ks)))
      = mset (filter (\<lambda>r. f r = k) rs) + mset (concat (map (\<lambda>j. filter (\<lambda>r. f r = j) rs) ks))"
    by simp
  also have "\<dots> = mset (filter (\<lambda>r. f r = k) rs) + mset ?rest"
    by (simp only: same ih)
  also have "\<dots> = mset rs"
    by (induction rs) simp_all
  finally show ?case .
qed

lemma mset_groups: "mset (concat (map snd (groups f rs))) = mset rs"
proof -
  have "map snd (groups f rs) = map (\<lambda>k. filter (\<lambda>r. f r = k) rs) (unique (map f rs))"
    by (simp add: groups_def comp_def)
  then show ?thesis
    using mset_by_keys[of "unique (map f rs)" f rs]
    by (simp add: distinct_unique set_unique)
qed

lemma billing_frame_filter:
  "billing_frame g t table =
     filter (\<lambda>r. case Billing_Amount r of None \<Rightarrow> False | Some b \<Rightarrow> b \<le> t) (gender_subset g table)"
proof -
  have "series_le (map Billing_Amount rs) t
          = map (\<lambda>r. case Billing_Amount r of None \<Rightarrow> False | Some b \<Rightarrow> b \<le> t) rs" for rs :: "row list"
    by (simp add: series_le_def)
  then show ?thesis
    by (simp add: billing_frame_def gender_mask getitem_mask_map)
qed

lemma length_dropna_present:
  "\<forall>r\<in>set rs. f r \<noteq> None \<Longrightarrow> length (dropna (map f rs)) = length rs"
  by (induction rs) auto

lemma counted_rows_billing:
  "counted_rows (update_billing g t table) = length (billing_frame g t table)"
proof -
  have "\<forall>r\<in>set (billing_frame g t table). Billing_Amount r \<noteq> None"
    by (auto simp: billing_frame_filter split: option.splits)
  then have "length (dropna (map Billing_Amount (billing_frame g t table)))
               = length (billing_frame g t table)"
    by (rule length_dropna_present)
  then show ?thesis
    by (simp add: counted_rows_def update_billing_def px_histogram_def one_group_def)
qed

lemma length_filter_mono:
  "(\<And>r. P r \<Longrightarrow> Q r) \<Longrightarrow> length (filter P rs) \<le> length (filter Q rs)"
  by (induction rs) auto

text \<open>
  Claim C7. Whenever the rows left by the gender filter are none (a gender no row has, or
  an empty table with no filter), the age-distribution callback returns the empty
  dictionary, its "no chart" result, and no figure.
\<close>
theorem age_distribution_empty_subset:
  "gender_subset g table = [] \<Longrightarrow> update_distribution g table = EmptyDict"
  by (simp add: update_distribution_def gender_mask)

theorem age_distribution_empty_subset_witness:
  "gender_subset (PStr ''Other'') example_table = []
     \<and> update_distribution (PStr ''Other'') example_table = EmptyDict
     \<and> update_distribution PNone [] = EmptyDict"
proof -
  have h: "gender_subset (PStr ''Other'') example_table = []"
    by (simp add: gender_subset_def ex)
  have e: "gender_subset PNone [] = []"
    by (simp add: gender_subset_def)
  show ?thesis
    using h age_distribution_empty_subset[OF h] age_distribution_empty_subset[OF e] by simp
qed

text \<open>
  Claim C9. A gender value that Python takes as false (\<^verbatim>\<open>None\<close>, the empty string, zero,
  \<^verbatim>\<open>False\<close>) is no filter: each of the four callbacks works on the whole table and
  returns what it returns for \<^verbatim>\<open>None\<close>, also when no row has that value as its gender.
\<close>
theorem falsy_gender_is_no_filter:
  assumes "\<not> truthy g"
  shows "gender_subset g table = table
     \<and> update_distribution g table =
         (if table = [] then EmptyDict
          else Fig (px_histogram (groups Gender table) Age 10 ''Age Distribution by Gender''))
     \<and> update_medical_condition g table =
         px_pie table Medical_Condition ''Medical Condiiton Distribution''
     \<and> update_insurance g table =
         px_bar (groups Medical_Condition table) Insurance_Provider Billing_Amount
           (Some ''group'') ''Insurance Provider Price Comparison''
     \<and> billing_frame g t table =
         getitem_mask table (series_le (map Billing_Amount table) t)
     \<and> update_distribution g table = update_distribution PNone table
     \<and> update_medical_condition g table = update_medical_condition PNone table
     \<and> update_insurance g table = update_insurance PNone table
     \<and> update_billing g t table = update_billing PNone t table"
  using assms
  by (simp add: gender_subset_def update_distribution_def update_medical_condition_def
      update_insurance_def billing_frame_def update_billing_def)

theorem falsy_gender_is_no_filter_witness:
  "\<not> truthy (PStr []) \<and> PStr [] \<notin> set (map (\<lambda>r. PStr (Gender r)) example_table)
     \<and> gender_subset (PStr []) example_table = example_table
     \<and> update_distribution (PStr []) example_table =
         Fig \<lparr>fig_data = [Histogram ''Female'' [34, 47, 29] 10, Histogram ''Male'' [51] 10],
              fig_title = ''Age Distribution by Gender'', fig_barmode = None\<rparr>
     \<and> update_medical_condition (PStr []) example_table =
         \<lparr>fig_data = [Pie [''Diabetes'', ''Diabetes'', ''Asthma'', ''Diabetes'']],
          fig_title = ''Medical Condiiton Distribution'', fig_barmode = None\<rparr>"
proof -
  have f: "\<not> truthy (PStr [])" by simp
  have n: "PStr [] \<notin> set (map (\<lambda>r. PStr (Gender r)) example_table)"
    by (simp add: ex)
  have d: "(if example_table = [] then EmptyDict
          else Fig (px_histogram (groups Gender example_table) Age 10 ''Age Distribution by Gender''))
        = Fig \<lparr>fig_data = [Histogram ''Female'' [34, 47, 29] 10, Histogram ''Male'' [51] 10],
              fig_title = ''Age Distribution by Gender'', fig_barmode = None\<rparr>"
    by (simp add: ex px_histogram_def groups_def)
  have p: "px_pie example_table Medical_Condition ''Medical Condiiton Distribution''
        = \<lparr>fig_data = [Pie [''Diabetes'', ''Diabetes'', ''Asthma'', ''Diabetes'']],
          fig_title = ''Medical Condiiton Distribution'', fig_barmode = None\<rparr>"
    by (simp add: ex px_pie_def one_group_def)
  show ?thesis
    using f n falsy_gender_is_no_filter[OF f, of example_table 0] d p by simp
qed

text \<open>
  Claim C6. The selector \<^verbatim>\<open>"line"\<close> draws the admission trend as a line (a scatter
  trace); every other value, \<^verbatim>\<open>"bar"\<close> or not, draws the same data as bars. The callback
  has no failing branch.
\<close>
theorem chart_type_fallback_is_bar:
  "fig_data (update_admission (PStr ''line'') c table) =
     (if trend_data_frame c table = [] then []
      else [Scatter [] (map fst (trend_data_frame c table)) (map snd (trend_data_frame c table))])
   \<and> (ct \<noteq> PStr ''line'' \<longrightarrow>
        fig_data (update_admission ct c table) =
          (if trend_data_frame c table = [] then []
           else [Bar [] (map fst (trend_data_frame c table)) (map snd (trend_data_frame c table))]))"
  by (simp add: update_admission_def px_line_def px_bar_def one_group_def)

theorem chart_type_fallback_is_bar_witness:
  "fig_data (update_admission (PStr ''line'') PNone example_table) =
     [Scatter [] [''2020-11'', ''2021-01'', ''2021-03''] [1, 1, 2]]
   \<and> fig_data (update_admission (PStr ''pie'') PNone example_table) =
     [Bar [] [''2020-11'', ''2021-01'', ''2021-03''] [1, 1, 2]]
   \<and> fig_data (update_admission PNone PNone example_table) =
     [Bar [] [''2020-11'', ''2021-01'', ''2021-03''] [1, 1, 2]]
   \<and> fig_data (update_admission (PStr ''bar'') PNone example_table) =
     [Bar [] [''2020-11'', ''2021-01'', ''2021-03''] [1, 1, 2]]"
proof -
  have t: "trend_data_frame PNone example_table = [(''2020-11'', 1), (''2021-01'', 1), (''2021-03'', 2)]"
    by (simp add: trend_data_frame_def admission_counts_def groupby_size_def ex period_str_def
        digit_def)
  show ?thesis
    using chart_type_fallback_is_bar[of PNone example_table "PStr ''pie''"]
      chart_type_fallback_is_bar[of PNone example_table PNone]
      chart_type_fallback_is_bar[of PNone example_table "PStr ''bar''"]
    by (simp add: t)
qed

text \<open>
  Claim C3. The billing callback restricts the table to the selected gender first and
  keeps of those rows exactly the ones whose billing amount is at most the threshold,
  in their order; a row whose amount is NaN fails the comparison and is dropped. The
  histogram trace carries the amounts of the rows kept.
\<close>
theorem billing_gender_then_threshold:
  "billing_frame g t table =
     filter (\<lambda>r. case Billing_Amount r of None \<Rightarrow> False | Some b \<Rightarrow> b \<le> t)
       (gender_subset g table)
   \<and> (\<forall>r\<in>set (billing_frame g t table). Billing_Amount r \<noteq> None)
   \<and> fig_data (update_billing g t table) =
       (if billing_frame g t table = [] then []
        else [Histogram [] (map Billing_Amount (billing_frame g t table)) 10])"
  by (auto simp: billing_frame_filter update_billing_def px_histogram_def one_group_def
      split: option.splits)

theorem billing_gender_then_threshold_witness:
  "billing_frame (PStr ''Female'') 250 example_table =
     [\<lparr>Gender = ''Female'', Age = 34, Medical_Condition = ''Diabetes'',
       Insurance_Provider = ''Aetna'', Billing_Amount = Some 200,
       Date_of_Admission = Timestamp 2021 3 5, YearMonth = 614\<rparr>,
      \<lparr>Gender = ''Female'', Age = 29, Medical_Condition = ''Diabetes'',
       Insurance_Provider = ''Aetna'', Billing_Amount = Some 100,
       Date_of_Admission = Timestamp 2021 1 15, YearMonth = 612\<rparr>]
   \<and> billing_frame PNone 1000 example_table = filter (\<lambda>r. Gender r \<noteq> ''Male'') example_table
   \<and> fig_data (update_billing (PStr ''Female'') 250 example_table) =
       [Histogram [] [Some 200, Some 100] 10]"
proof -
  have a: "filter (\<lambda>r. case Billing_Amount r of None \<Rightarrow> False | Some b \<Rightarrow> b \<le> 250)
             (gender_subset (PStr ''Female'') example_table) =
     [\<lparr>Gender = ''Female'', Age = 34, Medical_Condition = ''Diabetes'',
       Insurance_Provider = ''Aetna'', Billing_Amount = Some 200,
       Date_of_Admission = Timestamp 2021 3 5, YearMonth = 614\<rparr>,
      \<lparr>Gender = ''Female'', Age = 29, Medical_Condition = ''Diabetes'',
       Insurance_Provider = ''Aetna'', Billing_Amount = Some 100,
       Date_of_Admission = Timestamp 2021 1 15, YearMonth = 612\<rparr>]"
    by (simp add: gender_subset_def ex)
  have b: "filter (\<lambda>r. case Billing_Amount r of None \<Rightarrow> False | Some b \<Rightarrow> b \<le> 1000)
             (gender_subset PNone example_table) = filter (\<lambda>r. Gender r \<noteq> ''Male'') example_table"
    by (simp add: gender_subset_def ex)
  show ?thesis
    using billing_gender_then_threshold[of "PStr ''Female''" 250 example_table]
      billing_gender_then_threshold[of PNone 1000 example_table]
    by (simp add: a b)
qed

text \<open>
  Claim C4. For a fixed table and gender, the number of rows the billing histogram
  counts does not go down when the threshold goes up.
\<close>
theorem billing_threshold_monotone:
  assumes "t1 \<le> t2"
  shows "counted_rows (update_billing g t1 table) \<le> counted_rows (update_billing g t2 table)"
proof -
  have "length (billing_frame g t1 table) \<le> length (billing_frame g t2 table)"
    unfolding billing_frame_filter
    by (rule length_filter_mono) (use assms in \<open>auto split: option.splits\<close>)
  then show ?thesis
    by (simp add: counted_rows_billing)
qed

theorem billing_threshold_monotone_witness:
  "(150::real) \<le> 250
   \<and> counted_rows (update_billing PNone 150 example_table) = 1
   \<and> counted_rows (update_billing PNone 250 example_table) = 2
   \<and> counted_rows (update_billing PNone 150 example_table)
       \<le> counted_rows (update_billing PNone 250 example_table)"
proof -
  have h: "(150::real) \<le> 250" by simp
  have a: "counted_rows (update_billing PNone 150 example_table) = 1"
    by (simp add: counted_rows_billing billing_frame_filter gender_subset_def ex)
  have b: "counted_rows (update_billing PNone 250 example_table) = 2"
    by (simp add: counted_rows_billing billing_frame_filter gender_subset_def ex)
  show ?thesis
    using h a b billing_threshold_monotone[OF h, of PNone example_table] by simp
qed

section \<open>Periods and bins\<close>

lemma to_period_M_chronological:
  "1 \<le> ts_month s \<Longrightarrow> ts_month s \<le> 12 \<Longrightarrow> 1 \<le> ts_month t \<Longrightarrow> ts_month t \<le> 12 \<Longrightarrow>
     (to_period_M s < to_period_M t) =
       (ts_year s < ts_year t \<or> (ts_year s = ts_year t \<and> ts_month s < ts_month t))"
  unfolding to_period_M_def by auto

lemma int_div_bounds:
  fixes x d q :: int
  assumes "0 < d"
  shows "(x div d = q) = (q * d \<le> x \<and> x < (q + 1) * d)"
proof
  assume "x div d = q"
  moreover have "x div d * d + x mod d = x" by simp
  moreover have "0 \<le> x mod d" "x mod d < d" using assms by simp_all
  ultimately show "q * d \<le> x \<and> x < (q + 1) * d"
    by (auto simp: algebra_simps)
next
  assume b: "q * d \<le> x \<and> x < (q + 1) * d"
  have "x = d * q + (x - q * d)" by (simp add: algebra_simps)
  moreover have "0 \<le> x - q * d" using b by simp
  moreover have "x - q * d < d" using b by (simp add: algebra_simps)
  ultimately show "x div d = q"
    by (rule int_div_pos_eq)
qed

lemma int_div_less:
  fixes x d n :: int
  assumes "0 < d" and "x < n * d"
  shows "x div d < n"
proof (rule ccontr)
  assume "\<not> x div d < n"
  then have "n \<le> x div d" by simp
  then have "n * d \<le> x div d * d"
    using assms(1) by (simp add: mult_right_mono)
  also have "\<dots> \<le> x"
    using int_div_bounds[OF assms(1), of x "x div d"] by simp
  finally show False using assms(2) by simp
qed

lemma bin_index_last:
  assumes "lo < hi"
  shows "bin_index lo hi hi = 9"
proof -
  have "d * 10 div d = 10" if "0 < d" for d :: int
    using that by simp
  from this[of "hi - lo"] assms have "(hi - lo) * 10 div (hi - lo) = 10"
    by simp
  moreover have "\<not> hi \<le> lo" using assms by simp
  ultimately show ?thesis
    unfolding bin_index_def by (simp only: if_False)
qed

lemma bin_index_equal_width:
  assumes "lo < hi" and "lo \<le> a" and "a < hi"
  shows "(bin_index lo hi a = i) =
           (int i * (hi - lo) \<le> (a - lo) * 10 \<and> (a - lo) * 10 < (int i + 1) * (hi - lo))"
proof -
  let ?q = "(a - lo) * 10 div (hi - lo)"
  have d: "0 < hi - lo" using assms by simp
  have "0 \<le> (a - lo) * 10" using assms by simp
  then have q0: "0 \<le> ?q" using d by (simp only: pos_imp_zdiv_nonneg_iff)
  have "(a - lo) * 10 < 10 * (hi - lo)" using assms by simp
  with d have q9: "?q < 10" by (rule int_div_less)
  have n: "\<not> hi \<le> lo" using assms by simp
  have "bin_index lo hi a = nat ?q"
    unfolding bin_index_def using q0 q9 by (simp only: n if_False)
  then have "(bin_index lo hi a = i) = (?q = int i)"
    using q0 by auto
  then show ?thesis
    by (simp only: int_div_bounds[OF d])
qed

section \<open>The remaining callbacks and the startup statistics\<close>

lemma sum_bins:
  "\<forall>a\<in>set xs. f a < n \<Longrightarrow> sum_list (map (\<lambda>i. length (filter (\<lambda>a. f a = i) xs)) [0..<n]) = length xs"
proof (induction xs)
  case Nil
  then show ?case by simp
next
  case (Cons a xs)
  have one: "sum_list (map (\<lambda>i. if f a = i then 1 else 0) [0..<n]) = (1::nat)"
    using Cons.prems by (simp add: interv_sum_list_conv_sum_set_nat)
  have "sum_list (map (\<lambda>i. length (filter (\<lambda>b. f b = i) (a # xs))) [0..<n])
      = sum_list (map (\<lambda>i. (if f a = i then 1 else 0) + length (filter (\<lambda>b. f b = i) xs)) [0..<n])"
    by (rule arg_cong[where f=sum_list], rule map_cong) auto
  also have "\<dots> = sum_list (map (\<lambda>i. if f a = i then 1 else 0) [0..<n])
                  + sum_list (map (\<lambda>i. length (filter (\<lambda>b. f b = i) xs)) [0..<n])"
    by (simp add: sum_list_addf)
  also have "\<dots> = Suc (length xs)"
    using one Cons by simp
  finally show ?case by simp
qed

lemma sum_bin_counts: "sum_list (bin_counts lo hi xs) = length xs"
  unfolding bin_counts_def
  by (rule sum_bins) (auto simp: bin_index_def min_def)

lemma length_bin_counts: "length (bin_counts lo hi xs) = 10"
  by (simp add: bin_counts_def)

lemma zip_columns: "zip (map f rs) (map h rs) = map (\<lambda>r. (f r, h r)) rs"
  by (induction rs) simp_all

lemma dropna_present:
  "dropna (map f (filter (\<lambda>r. f r \<noteq> None) rs)) = dropna (map f rs)"
  by (induction rs) auto

lemma nansum_dropna: "nansum col = sum_list (dropna col)"
  unfolding nansum_def by (induction col rule: dropna.induct) simp_all

lemma count_notna_dropna: "count_notna col = length (dropna col)"
  unfolding count_notna_def by (induction col rule: dropna.induct) simp_all

lemma fold_min_Min: "fold min bs (b::real) = Min (set (b # bs))"
  using Min.set_eq_fold[of b bs] by simp

lemma fold_max_Max: "fold max bs (b::real) = Max (set (b # bs))"
  using Max.set_eq_fold[of b bs] by simp

lemma condition_mask:
  "(if truthy c then getitem_mask table (series_eq (map Medical_Condition table) c) else table)
     = condition_subset c table"
proof -
  have "series_eq (map Medical_Condition table) c = map (\<lambda>r. PStr (Medical_Condition r) = c) table"
    by (simp add: series_eq_def)
  then show ?thesis
    by (simp add: condition_subset_def getitem_mask_map)
qed

lemma sort_unique: "sort (unique vs) = sorted_list_of_set (set vs)"
proof (rule sorted_distinct_set_unique)
  show "sorted (sort (unique vs))" by simp
  show "distinct (sort (unique vs))" by (simp add: distinct_unique)
  show "sorted (sorted_list_of_set (set vs))" by simp
  show "distinct (sorted_list_of_set (set vs))" by simp
  show "set (sort (unique vs)) = set (sorted_list_of_set (set vs))" by (simp add: set_unique)
qed

lemma groupby_size_keys:
  "groupby_size key rs =
     map (\<lambda>k. (k, length (filter (\<lambda>r. key r = k) rs))) (sorted_list_of_set (key ` set rs))"
  by (simp add: groupby_size_def sort_unique)

lemma groupby_size_strict: "sorted_wrt (<) (map fst (groupby_size key rs))"
  by (simp add: groupby_size_keys comp_def strict_sorted_iff)

lemma length_filter_mset: "length (filter P rs) = size (filter_mset P (mset rs))"
  by (metis mset_filter size_mset)

lemma groupby_size_mset:
  assumes "mset rs' = mset rs"
  shows "groupby_size key rs' = groupby_size key rs"
proof -
  have "set rs' = set rs" using assms by (rule mset_eq_setD)
  then show ?thesis
    by (simp add: groupby_size_keys length_filter_mset assms)
qed

lemma admission_counts_subset:
  "admission_counts c table = groupby_size YearMonth (condition_subset c table)"
  by (simp add: admission_counts_def condition_mask)

lemma condition_subset_mset:
  "mset table' = mset table \<Longrightarrow> mset (condition_subset c table') = mset (condition_subset c table)"
  by (simp add: condition_subset_def)

text \<open>
  Claim C5. The admission-trend callback counts the rows of the condition subset per
  period and hands the periods over strictly ascending, each once with its number of
  rows, the labels being the strings of those periods in that order. A table with the
  same rows in another order gives the same counts and the same figure.
\<close>
theorem admission_periods_ascending:
  "sorted_wrt (<) (map fst (admission_counts c table))
   \<and> admission_counts c table =
       map (\<lambda>p. (p, length (filter (\<lambda>r. YearMonth r = p) (condition_subset c table))))
         (sorted_list_of_set (YearMonth ` set (condition_subset c table)))
   \<and> map fst (trend_data_frame c table) = map period_str (map fst (admission_counts c table))
   \<and> map snd (trend_data_frame c table) = map snd (admission_counts c table)
   \<and> (\<forall>table'. mset table' = mset table \<longrightarrow>
         admission_counts c table' = admission_counts c table
         \<and> update_admission ct c table' = update_admission ct c table)"
proof -
  have a: "sorted_wrt (<) (map fst (admission_counts c table))"
    by (simp only: admission_counts_subset groupby_size_strict)
  have b: "admission_counts c table =
       map (\<lambda>p. (p, length (filter (\<lambda>r. YearMonth r = p) (condition_subset c table))))
         (sorted_list_of_set (YearMonth ` set (condition_subset c table)))"
    by (simp only: admission_counts_subset groupby_size_keys)
  have c1: "map fst (trend_data_frame c table) = map period_str (map fst (admission_counts c table))"
    by (simp add: trend_data_frame_def case_prod_beta comp_def)
  have c2: "map snd (trend_data_frame c table) = map snd (admission_counts c table)"
    by (simp add: trend_data_frame_def case_prod_beta comp_def)
  have d: "admission_counts c table' = admission_counts c table
         \<and> update_admission ct c table' = update_admission ct c table"
    if "mset table' = mset table" for table'
  proof -
    have "admission_counts c table' = admission_counts c table"
      unfolding admission_counts_subset
      by (rule groupby_size_mset) (rule condition_subset_mset[OF that])
    then show ?thesis
      by (simp add: update_admission_def trend_data_frame_def)
  qed
  from a b c1 c2 d show ?thesis by blast
qed

theorem admission_periods_ascending_witness:
  "mset (rev example_table) = mset example_table
   \<and> map YearMonth (rev example_table) = [612, 610, 614, 614]
   \<and> admission_counts PNone example_table = [(610, 1), (612, 1), (614, 2)]
   \<and> admission_counts PNone (rev example_table) = [(610, 1), (612, 1), (614, 2)]
   \<and> update_admission (PStr ''line'') PNone (rev example_table) =
       \<lparr>fig_data = [Scatter [] [''2020-11'', ''2021-01'', ''2021-03''] [1, 1, 2]],
        fig_title = ''Admission Trends over Time'', fig_barmode = None\<rparr>"
proof -
  have m: "mset (rev example_table) = mset example_table" by simp
  have o: "map YearMonth (rev example_table) = [612, 610, 614, 614]"
    by (simp add: ex)
  have k: "admission_counts PNone example_table = [(610, 1), (612, 1), (614, 2)]"
    by (simp add: admission_counts_def groupby_size_def ex)
  have u: "update_admission (PStr ''line'') PNone example_table =
       \<lparr>fig_data = [Scatter [] [''2020-11'', ''2021-01'', ''2021-03''] [1, 1, 2]],
        fig_title = ''Admission Trends over Time'', fig_barmode = None\<rparr>"
    by (simp add: update_admission_def trend_data_frame_def k period_str_def digit_def
        px_line_def one_group_def)
  show ?thesis
    using admission_periods_ascending[of PNone example_table "PStr ''line''"] m o k u
    by simp
qed

lemma update_insurance_subset:
  "update_insurance g table =
     px_bar (groups Medical_Condition (gender_subset g table)) Insurance_Provider
       Billing_Amount (Some ''group'') ''Insurance Provider Price Comparison''"
  by (simp add: update_insurance_def gender_mask)

lemma bars_px_bar:
  "bars (px_bar gs xcol ycol bm title) =
     concat (map (\<lambda>(k, rs). map (\<lambda>r. ((xcol r, k), ycol r)) rs) gs)"
  by (simp add: bars_def px_bar_def comp_def case_prod_unfold zip_columns)

lemma groups_rows:
  "concat (map (\<lambda>(k, rs). map (\<lambda>r. ((xcol r, k), ycol r)) rs) (groups color frame))
     = map (\<lambda>r. ((xcol r, color r), ycol r)) (concat (map snd (groups color frame)))"
proof -
  have inner: "map (\<lambda>r. ((xcol r, k), ycol r)) (filter (\<lambda>r. color r = k) frame)
      = map (\<lambda>r. ((xcol r, color r), ycol r)) (filter (\<lambda>r. color r = k) frame)" for k
    by (rule map_cong) auto
  show ?thesis
    by (simp add: groups_def comp_def map_concat inner)
qed

text \<open>
  Claim C1, as the callback has it. The insurance comparison makes one trace per medical
  condition of the gender subset, in order of first appearance, in bar mode "group"; a
  trace holds, for every row of its condition, the row's provider and the row's billing
  amount as it stands. There is one bar per row and no mean is taken.
\<close>
theorem insurance_bars_are_rows:
  "fig_data (update_insurance g table) =
     map (\<lambda>c. Bar c
            (map Insurance_Provider (filter (\<lambda>r. Medical_Condition r = c) (gender_subset g table)))
            (map Billing_Amount (filter (\<lambda>r. Medical_Condition r = c) (gender_subset g table))))
       (unique (map Medical_Condition (gender_subset g table)))
   \<and> fig_barmode (update_insurance g table) = Some ''group''
   \<and> mset (bars (update_insurance g table)) =
       mset (map (\<lambda>r. ((Insurance_Provider r, Medical_Condition r), Billing_Amount r))
              (gender_subset g table))
   \<and> length (bars (update_insurance g table)) = length (gender_subset g table)"
proof -
  let ?sub = "gender_subset g table"
  let ?h = "\<lambda>r. ((Insurance_Provider r, Medical_Condition r), Billing_Amount r)"
  have a: "fig_data (update_insurance g table) =
     map (\<lambda>c. Bar c (map Insurance_Provider (filter (\<lambda>r. Medical_Condition r = c) ?sub))
            (map Billing_Amount (filter (\<lambda>r. Medical_Condition r = c) ?sub)))
       (unique (map Medical_Condition ?sub))"
    by (simp add: update_insurance_subset px_bar_def groups_def comp_def)
  have b: "fig_barmode (update_insurance g table) = Some ''group''"
    by (simp add: update_insurance_subset px_bar_def)
  have "bars (update_insurance g table) = map ?h (concat (map snd (groups Medical_Condition ?sub)))"
    by (simp only: update_insurance_subset bars_px_bar groups_rows)
  then have "mset (bars (update_insurance g table))
      = image_mset ?h (mset (concat (map snd (groups Medical_Condition ?sub))))"
    by simp
  then have c: "mset (bars (update_insurance g table)) = mset (map ?h ?sub)"
    by (simp only: mset_groups mset_map)
  from c have "size (mset (bars (update_insurance g table))) = size (mset (map ?h ?sub))"
    by simp
  then have d: "length (bars (update_insurance g table)) = length ?sub"
    by simp
  from a b c d show ?thesis by blast
qed

theorem insurance_bars_are_rows_witness:
  "bars (update_insurance PNone example_table) =
     [((''Aetna'', ''Diabetes''), Some 200), ((''Aetna'', ''Diabetes''), None),
      ((''Aetna'', ''Diabetes''), Some 100), ((''Cigna'', ''Asthma''), Some 300)]
   \<and> length (bars (update_insurance PNone example_table)) = length example_table"
proof -
  have s: "gender_subset PNone example_table = example_table"
    by (simp add: gender_subset_def)
  have v: "bars (update_insurance PNone example_table) =
     [((''Aetna'', ''Diabetes''), Some 200), ((''Aetna'', ''Diabetes''), None),
      ((''Aetna'', ''Diabetes''), Some 100), ((''Cigna'', ''Asthma''), Some 300)]"
    by (simp add: update_insurance_subset gender_subset_def bars_px_bar groups_def ex)
  show ?thesis
    using insurance_bars_are_rows[of PNone example_table] v by (simp add: s)
qed

text \<open>
  On the example table the callback hands over four bars, three of them at the same
  provider and condition (one of them NaN), where the spec's reading has two bars with
  the means 150 and 300.
\<close>
theorem insurance_mean_counterexample:
  "bars (update_insurance PNone example_table) =
     [((''Aetna'', ''Diabetes''), Some 200), ((''Aetna'', ''Diabetes''), None),
      ((''Aetna'', ''Diabetes''), Some 100), ((''Cigna'', ''Asthma''), Some 300)]
   \<and> spec_insurance_means (gender_subset PNone example_table) =
     [((''Aetna'', ''Diabetes''), Some 150), ((''Cigna'', ''Asthma''), Some 300)]
   \<and> bars (update_insurance PNone example_table)
       \<noteq> spec_insurance_means (gender_subset PNone example_table)"
proof -
  have s: "gender_subset PNone example_table = example_table"
    by (simp add: gender_subset_def)
  have v: "bars (update_insurance PNone example_table) =
     [((''Aetna'', ''Diabetes''), Some 200), ((''Aetna'', ''Diabetes''), None),
      ((''Aetna'', ''Diabetes''), Some 100), ((''Cigna'', ''Asthma''), Some 300)]"
    by (simp add: update_insurance_subset gender_subset_def bars_px_bar groups_def ex)
  have w: "spec_insurance_means example_table =
     [((''Aetna'', ''Diabetes''), Some 150), ((''Cigna'', ''Asthma''), Some 300)]"
    by (simp add: spec_insurance_means_def series_mean_def nansum_def count_notna_def ex)
  show ?thesis
    by (simp add: s v w)
qed

text \<open>
  Claim C2, as the callbacks have it. For a gender value that Python takes as true and
  that no row has, the gender subset is empty: the age distribution returns the empty
  dictionary and the three other callbacks return a figure with no trace. None of the
  four has a failing branch.
\<close>
theorem unknown_gender_gives_empty_result:
  assumes "truthy g" and "g \<notin> set (map (\<lambda>r. PStr (Gender r)) table)"
  shows "gender_subset g table = []
   \<and> update_distribution g table = EmptyDict
   \<and> fig_data (update_medical_condition g table) = []
   \<and> fig_data (update_insurance g table) = []
   \<and> bars (update_insurance g table) = []
   \<and> fig_data (update_billing g t table) = []
   \<and> counted_rows (update_billing g t table) = 0"
proof -
  have "filter (\<lambda>r. PStr (Gender r) = g) table = []"
    using assms(2) by (auto simp: filter_empty_conv)
  then have e: "gender_subset g table = []"
    using assms(1) by (simp add: gender_subset_def)
  have m: "update_medical_condition g table =
      px_pie (gender_subset g table) Medical_Condition ''Medical Condiiton Distribution''"
    by (simp add: update_medical_condition_def gender_mask)
  have d: "update_distribution g table = EmptyDict"
    by (simp add: update_distribution_def gender_mask e)
  have b: "billing_frame g t table = []"
    by (simp add: billing_frame_filter e)
  show ?thesis
    using e d
    by (simp add: m update_insurance_subset px_pie_def px_bar_def one_group_def groups_def
        bars_def update_billing_def b px_histogram_def counted_rows_def)
qed

theorem unknown_gender_gives_empty_result_witness:
  "truthy (PStr ''Other'') \<and> PStr ''Other'' \<notin> set (map (\<lambda>r. PStr (Gender r)) example_table)
   \<and> update_distribution (PStr ''Other'') example_table = EmptyDict
   \<and> fig_data (update_medical_condition (PStr ''Other'') example_table) = []
   \<and> fig_data (update_insurance (PStr ''Other'') example_table) = []
   \<and> fig_data (update_billing (PStr ''Other'') 250 example_table) = []"
proof -
  have t: "truthy (PStr ''Other'')" by simp
  have n: "PStr ''Other'' \<notin> set (map (\<lambda>r. PStr (Gender r)) example_table)"
    by (simp add: ex)
  show ?thesis
    using t n unknown_gender_gives_empty_result[OF t n, of 250] by simp
qed

text \<open>
  The empty string is the gender of no row of the example table, and all four callbacks
  return a populated figure for it.
\<close>
theorem unknown_gender_counterexample:
  "PStr [] \<notin> set (map (\<lambda>r. PStr (Gender r)) example_table)
   \<and> update_distribution (PStr []) example_table \<noteq> EmptyDict
   \<and> fig_data (update_medical_condition (PStr []) example_table) \<noteq> []
   \<and> fig_data (update_insurance (PStr []) example_table) \<noteq> []
   \<and> fig_data (update_billing (PStr []) 250 example_table) \<noteq> []"
  by (simp add: update_distribution_def update_medical_condition_def update_insurance_def
      update_billing_def billing_frame_def px_histogram_def px_pie_def px_bar_def one_group_def
      groups_def getitem_mask_def series_le_def ex)

lemma update_distribution_subset:
  "update_distribution g table =
     (if gender_subset g table = [] then EmptyDict
      else Fig (px_histogram (groups Gender (gender_subset g table)) Age 10
                  ''Age Distribution by Gender''))"
  by (simp add: update_distribution_def gender_mask)

lemma histogram_values:
  "concat (map trace_x (fig_data (px_histogram (groups color frame) xcol nbins title)))
     = map xcol (concat (map snd (groups color frame)))"
  by (simp add: px_histogram_def groups_def comp_def map_concat)

lemma age_bins_total:
  "sum_list (map (\<lambda>(k, cs). sum_list cs) (age_bins fig)) = length (concat (map trace_x (fig_data fig)))"
proof (cases "concat (map trace_x (fig_data fig))")
  case Nil
  have "age_bins fig = []"
    unfolding age_bins_def Nil by simp
  then show ?thesis
    unfolding Nil by simp
next
  case (Cons a rest)
  have "age_bins fig =
      map (\<lambda>t. (trace_name t, bin_counts (fold min rest a) (fold max rest a) (trace_x t)))
        (fig_data fig)"
    unfolding age_bins_def Cons by simp
  then have "sum_list (map (\<lambda>(k, cs). sum_list cs) (age_bins fig))
      = sum_list (map (\<lambda>t. length (trace_x t)) (fig_data fig))"
    by (simp add: comp_def sum_bin_counts)
  also have "\<dots> = length (concat (map trace_x (fig_data fig)))"
    by (simp add: length_concat comp_def)
  finally show ?thesis .
qed

text \<open>
  Claim C8. When the gender subset is not empty, the age distribution is a figure with
  one histogram trace per gender of the subset, each asking for 10 bins and carrying the
  ages of its rows. Binned into the ten equal-width bins over the ages of the subset,
  every trace has ten counts, and all the counts together add up to the number of rows
  of the subset.
\<close>
theorem age_bins_sum_to_rows:
  assumes "gender_subset g table \<noteq> []"
  shows "\<exists>fig. update_distribution g table = Fig fig
     \<and> fig_data fig =
         map (\<lambda>k. Histogram k (map Age (filter (\<lambda>r. Gender r = k) (gender_subset g table))) 10)
           (unique (map Gender (gender_subset g table)))
     \<and> map fst (age_bins fig) = unique (map Gender (gender_subset g table))
     \<and> list_all (\<lambda>(k, cs). length cs = 10) (age_bins fig)
     \<and> sum_list (map (\<lambda>(k, cs). sum_list cs) (age_bins fig)) = length (gender_subset g table)"
proof -
  let ?sub = "gender_subset g table"
  let ?fig = "px_histogram (groups Gender ?sub) Age 10 ''Age Distribution by Gender''"
  have u: "update_distribution g table = Fig ?fig"
    using assms by (simp add: update_distribution_subset)
  have d: "fig_data ?fig =
      map (\<lambda>k. Histogram k (map Age (filter (\<lambda>r. Gender r = k) ?sub)) 10)
        (unique (map Gender ?sub))"
    by (simp add: px_histogram_def groups_def comp_def)
  have v: "concat (map trace_x (fig_data ?fig)) = map Age (concat (map snd (groups Gender ?sub)))"
    by (rule histogram_values)
  have "size (mset (concat (map snd (groups Gender ?sub)))) = size (mset ?sub)"
    by (simp only: mset_groups)
  then have n: "length (concat (map trace_x (fig_data ?fig))) = length ?sub"
    by (simp add: v)
  with assms obtain a rest where c: "concat (map trace_x (fig_data ?fig)) = a # rest"
    by (cases "concat (map trace_x (fig_data ?fig))") auto
  have b: "age_bins ?fig =
      map (\<lambda>t. (trace_name t, bin_counts (fold min rest a) (fold max rest a) (trace_x t)))
        (fig_data ?fig)"
    unfolding age_bins_def c by simp
  have f: "map fst (age_bins ?fig) = unique (map Gender ?sub)"
    by (simp add: b d comp_def)
  have l: "list_all (\<lambda>(k, cs). length cs = 10) (age_bins ?fig)"
    by (simp add: b list_all_iff length_bin_counts)
  have t: "sum_list (map (\<lambda>(k, cs). sum_list cs) (age_bins ?fig)) = length ?sub"
    by (simp only: age_bins_total n)
  from u d f l t show ?thesis by blast
qed

theorem age_bins_sum_to_rows_witness:
  "gender_subset PNone example_table \<noteq> []
   \<and> (\<exists>fig. update_distribution PNone example_table = Fig fig
        \<and> fig_data fig = [Histogram ''Female'' [34, 47, 29] 10, Histogram ''Male'' [51] 10]
        \<and> age_bins fig = [(''Female'', [1, 0, 1, 0, 0, 0, 0, 0, 1, 0]),
                           (''Male'', [0, 0, 0, 0, 0, 0, 0, 0, 0, 1])]
        \<and> sum_list (map (\<lambda>(k, cs). sum_list cs) (age_bins fig)) = length example_table)"
proof -
  have s: "gender_subset PNone example_table = example_table"
    by (simp add: gender_subset_def)
  have h: "gender_subset PNone example_table \<noteq> []"
    by (simp add: gender_subset_def ex)
  from age_bins_sum_to_rows[OF h] obtain fig where
    u: "update_distribution PNone example_table = Fig fig" and
    d: "fig_data fig =
         map (\<lambda>k. Histogram k (map Age (filter (\<lambda>r. Gender r = k) (gender_subset PNone example_table))) 10)
           (unique (map Gender (gender_subset PNone example_table)))" and
    t: "sum_list (map (\<lambda>(k, cs). sum_list cs) (age_bins fig)) = length (gender_subset PNone example_table)"
    by blast
  have d': "fig_data fig = [Histogram ''Female'' [34, 47, 29] 10, Histogram ''Male'' [51] 10]"
    unfolding d by (simp add: gender_subset_def ex)
  have f: "bin_counts 29 51 [34, 47, 29] = [1, 0, 1, 0, 0, 0, 0, 0, 1, 0]"
    by code_simp
  have m: "bin_counts 29 51 [51] = [0, 0, 0, 0, 0, 0, 0, 0, 0, 1]"
    by code_simp
  have b: "age_bins fig = [(''Female'', [1, 0, 1, 0, 0, 0, 0, 0, 1, 0]),
                           (''Male'', [0, 0, 0, 0, 0, 0, 0, 0, 0, 1])]"
    by (simp add: age_bins_def d' f m)
  from h u d' b t show ?thesis
    unfolding s by blast
qed

lemma series_mean_present:
  "series_mean col =
     (if dropna col = [] then None else Some (sum_list (dropna col) / real (length (dropna col))))"
  by (simp add: series_mean_def nansum_dropna count_notna_dropna)

lemma series_min_present:
  "series_min col = (if dropna col = [] then None else Some (Min (set (dropna col))))"
  by (cases "dropna col") (simp_all add: series_min_def fold_min_Min)

lemma series_max_present:
  "series_max col = (if dropna col = [] then None else Some (Max (set (dropna col))))"
  by (cases "dropna col") (simp_all add: series_max_def fold_max_Max)

text \<open>
  Claim C10. The record count shown is the number of all rows, those with a missing
  billing amount included. The average shown and the slider's minimum, maximum, start
  value (the median) and marks (the quantiles) are those of the amounts present: they
  are the same on the table with the rows of missing amount taken out.
\<close>
theorem startup_statistics_skip_missing:
  "num_records table = length table
   \<and> num_records table =
       length (filter (\<lambda>r. Billing_Amount r \<noteq> None) table)
         + length (filter (\<lambda>r. Billing_Amount r = None) table)
   \<and> avg_billing table =
       (if dropna (map Billing_Amount table) = [] then None
        else Some (sum_list (dropna (map Billing_Amount table))
                     / real (length (dropna (map Billing_Amount table)))))
   \<and> slider_min table =
       (if dropna (map Billing_Amount table) = [] then None
        else Some (Min (set (dropna (map Billing_Amount table)))))
   \<and> slider_max table =
       (if dropna (map Billing_Amount table) = [] then None
        else Some (Max (set (dropna (map Billing_Amount table)))))
   \<and> avg_billing table = avg_billing (filter (\<lambda>r. Billing_Amount r \<noteq> None) table)
   \<and> slider_min table = slider_min (filter (\<lambda>r. Billing_Amount r \<noteq> None) table)
   \<and> slider_max table = slider_max (filter (\<lambda>r. Billing_Amount r \<noteq> None) table)
   \<and> slider_value table = slider_value (filter (\<lambda>r. Billing_Amount r \<noteq> None) table)
   \<and> slider_marks table = slider_marks (filter (\<lambda>r. Billing_Amount r \<noteq> None) table)"
proof -
  let ?present = "filter (\<lambda>r. Billing_Amount r \<noteq> None) table"
  have p: "dropna (map Billing_Amount ?present) = dropna (map Billing_Amount table)"
    by (rule dropna_present)
  have n: "num_records table = length ?present + length (filter (\<lambda>r. Billing_Amount r = None) table)"
    using sum_length_filter_compl[of "\<lambda>r. Billing_Amount r \<noteq> None" table]
    by (simp add: num_records_def)
  have q: "series_quantile (map Billing_Amount ?present) = series_quantile (map Billing_Amount table)"
    by (rule ext) (simp only: series_quantile_def p)
  have a: "avg_billing table = avg_billing ?present"
    by (simp only: avg_billing_def series_mean_present p)
  have lo: "slider_min table = slider_min ?present"
    by (simp only: slider_min_def series_min_def p)
  have hi: "slider_max table = slider_max ?present"
    by (simp only: slider_max_def series_max_def p)
  have v: "slider_value table = slider_value ?present"
    by (simp only: slider_value_def series_median_def p)
  have k: "slider_marks table = slider_marks ?present"
    by (simp only: slider_marks_def q)
  show ?thesis
    using n a lo hi v k
    by (simp add: num_records_def avg_billing_def slider_min_def slider_max_def
        series_mean_present series_min_present series_max_present)
qed

theorem startup_statistics_skip_missing_witness:
  "num_records example_table = 4
   \<and> length (filter (\<lambda>r. Billing_Amount r \<noteq> None) example_table) = 3
   \<and> avg_billing example_table = Some 200
   \<and> slider_min example_table = Some 100
   \<and> slider_max example_table = Some 300
   \<and> slider_value example_table = Some 200
   \<and> slider_marks example_table = Inr [100, 150, 200, 250, 300]"
proof -
  have c: "map Billing_Amount example_table = [Some 200, None, Some 300, Some 100]"
    by (simp add: ex)
  have n: "length (filter (\<lambda>r. Billing_Amount r \<noteq> None) example_table) = 3"
    by (simp add: ex)
  have v: "slider_value example_table = Some 200"
    by (simp add: slider_value_def series_median_def c)
  have q: "map (series_quantile [Some 200, None, Some 300, Some 100]) [0, 0.25, 0.5, 0.75, 1]
             = [Some 100, Some 150, Some 200, Some 250, Some 300]"
    by (simp add: series_quantile_def)
  have k: "slider_marks example_table = Inr [100, 150, 200, 250, 300]"
    unfolding slider_marks_def c q by (simp add: py_int_def)
  have l: "length example_table = 4"
    by (simp add: ex)
  show ?thesis
    using startup_statistics_skip_missing[of example_table] n v k l
    by (simp add: c)
qed

end
